theory Spec2Isabelle
  imports Complex_Main "HOL-Library.Log_Nat"
begin

section \<open>Data model\<close>

text \<open>
  The detection engine is the class \<^verbatim>\<open>AccidentDetector\<close> of \<^verbatim>\<open>detection.js\<close>, the alert
  lifecycle is the class \<^verbatim>\<open>AlertHandler\<close> of \<^verbatim>\<open>alert.js\<close>. Severities are the strings
  \<^verbatim>\<open>'none'\<close>, \<^verbatim>\<open>'low'\<close>, \<^verbatim>\<open>'medium'\<close>, \<^verbatim>\<open>'high'\<close>, \<^verbatim>\<open>'critical'\<close>; event types are the
  strings \<^verbatim>\<open>'impact'\<close>, \<^verbatim>\<open>'rotation'\<close>, \<^verbatim>\<open>'combined'\<close>.

  Numbers: \<^verbatim>\<open>Date.now()\<close> is an integer number of milliseconds (\<open>int\<close>); the sound level is
  \<^verbatim>\<open>Math.round(average)\<close>, an integer; g-forces and angles are finite doubles (the sensor
  layer replaces a missing reading by 0), read here as the real numbers they denote. The
  engine compares them with its thresholds, which is exact, and subtracts two angles,
  which rounds: \<open>double_sub\<close> is the subtraction of IEEE 754 binary64, the exact
  difference rounded to the nearest double, ties to even. Angles are far below
  \<open>2 ^ 1024\<close>, so the overflow to infinity is left out.
  One callback reads the clock several times (\<^verbatim>\<open>analyzeSensorData\<close>,
  \<^verbatim>\<open>triggerAccidentAlert\<close>, \<^verbatim>\<open>checkRotationAnomaly\<close>); the callback runs within one
  millisecond, so the model passes one reading \<open>now\<close> to all of them.
\<close>

datatype severity = SevNone | Low | Medium | High | Critical

datatype event_type = Impact | Rotation | Combined

record thresholds =
  lowImpact :: real
  mediumImpact :: real
  highImpact :: real
  criticalImpact :: real
  crashSoundLevel :: int
  suddenRotation :: real
  sustainedForceDuration :: int

record rotation =
  alpha :: real
  beta :: real
  gamma :: real

text \<open>The fields of \<^verbatim>\<open>sensorData\<close> that the engine reads.\<close>

record sensor_data =
  impactForce :: real
  rotation :: rotation

record audio_data =
  level :: int
  peak :: int

record position =
  latitude :: real
  longitude :: real

text \<open>
  The \<^verbatim>\<open>details\<close> object handed to the alert handler: \<^verbatim>\<open>{impactForce, duration}\<close> on the
  impact path, \<^verbatim>\<open>{soundLevel, combined: true}\<close> on the audio path; \<^verbatim>\<open>updateLocation\<close> adds
  \<^verbatim>\<open>location\<close> later. An absent property is \<open>None\<close> (\<open>False\<close> for the flag).
\<close>

record details =
  det_impactForce :: "real option"
  det_duration :: "int option"
  det_soundLevel :: "int option"
  det_combined :: bool
  det_location :: "position option"

definition no_details :: details where
  "no_details = \<lparr>det_impactForce = None, det_duration = None, det_soundLevel = None,
     det_combined = False, det_location = None\<rparr>"

text \<open>An entry of \<^verbatim>\<open>detectionHistory\<close>; the metrics a kind of event does not carry are \<open>None\<close>.\<close>

record detection_event =
  ev_type :: event_type
  ev_severity :: severity
  ev_force :: "real option"
  ev_duration :: "int option"
  ev_soundLevel :: "int option"
  ev_deltaBeta :: "real option"
  ev_deltaGamma :: "real option"
  ev_timestamp :: int

record detector =
  isActive :: bool
  detectionThresholds :: thresholds
  detectionHistory :: "detection_event list"
  lastImpactTime :: int
  highForceStartTime :: int
  sustainedHighForce :: bool
  previousRotation :: "rotation option"

datatype screen = Dashboard | AlertScreen | EmergencyScreen

text \<open>
  What a callback does to its collaborators, in call order. \<open>ShowAlert\<close> is the call
  \<^verbatim>\<open>window.alertHandler.showAlert(severity, details)\<close> of the engine, \<open>Dispatch\<close> the call
  \<^verbatim>\<open>emergencyHandler.sendAlert(severity, details)\<close>, \<open>ResetTimeout ms\<close> the
  \<^verbatim>\<open>setTimeout\<close> of \<^verbatim>\<open>cancelAlert\<close>, \<open>CountdownInterval ms\<close> and \<open>BeepInterval ms\<close> the
  \<^verbatim>\<open>setInterval\<close> calls of \<^verbatim>\<open>startCountdown\<close> and \<^verbatim>\<open>startContinuousBeeping\<close> with
  their periods. \<^verbatim>\<open>window.alertHandler\<close> is set when \<^verbatim>\<open>alert.js\<close>
  loads, so the engine's test for it succeeds. Log lines are not modelled.
\<close>

datatype effect =
    SeverityDisplay severity
  | ShowAlert severity details
  | SwitchScreen screen
  | AlertDisplay severity int
  | LocationRequest
  | CountdownDisplay int
  | AlertSound
  | Beep
  | UrgentBeep
  | Vibrate
  | Dispatch severity details
  | ErrorDialog
  | ResetTimeout int
  | CountdownInterval int
  | BeepInterval int

section \<open>Detection engine (detection.js)\<close>

definition default_thresholds :: thresholds where
  "default_thresholds = \<lparr>lowImpact = 2.5, mediumImpact = 4.0, highImpact = 6.0,
     criticalImpact = 8.0, crashSoundLevel = 100, suddenRotation = 45,
     sustainedForceDuration = 200\<rparr>"

text \<open>The constructor.\<close>

definition new_detector :: detector where
  "new_detector = \<lparr>isActive = False, detectionThresholds = default_thresholds,
     detectionHistory = [], lastImpactTime = 0, highForceStartTime = 0,
     sustainedHighForce = False, previousRotation = None\<rparr>"

definition start :: "detector \<Rightarrow> detector" where
  "start d = d\<lparr>isActive := True, detectionHistory := []\<rparr>"

definition stop :: "detector \<Rightarrow> detector" where
  "stop d = d\<lparr>isActive := False\<rparr>"

definition calculateSeverity :: "thresholds \<Rightarrow> real \<Rightarrow> int \<Rightarrow> severity" where
  "calculateSeverity t force duration =
     (if force \<ge> criticalImpact t \<or>
         (force \<ge> highImpact t \<and> duration \<ge> sustainedForceDuration t) then Critical
      else if force \<ge> highImpact t then High
      else if force \<ge> mediumImpact t then Medium
      else if force \<ge> lowImpact t then Low
      else SevNone)"

text \<open>The two upgrades run one after the other, \<^verbatim>\<open>'medium'\<close> first.\<close>

definition calculateCombinedSeverity :: "thresholds \<Rightarrow> detection_event \<Rightarrow> int \<Rightarrow> severity" where
  "calculateCombinedSeverity t impactEvent soundLevel =
     (let severity = ev_severity impactEvent in
      if soundLevel \<ge> crashSoundLevel t then
        (let severity1 = (if severity = Medium then High else severity) in
         if severity1 = Low then Medium else severity1)
      else severity)"

text \<open>The loop runs from the newest entry to the oldest and returns the first match.\<close>

fun first_match :: "int \<Rightarrow> int \<Rightarrow> detection_event list \<Rightarrow> detection_event option" where
  "first_match currentTime timeWindow [] = None"
| "first_match currentTime timeWindow (e # es) =
     (if currentTime - ev_timestamp e \<le> timeWindow \<and> ev_type e = Impact then Some e
      else first_match currentTime timeWindow es)"

definition hasRecentImpact :: "detector \<Rightarrow> int \<Rightarrow> int \<Rightarrow> detection_event option" where
  "hasRecentImpact d currentTime timeWindow =
     first_match currentTime timeWindow (rev (detectionHistory d))"

definition addDetectionEvent :: "detector \<Rightarrow> detection_event \<Rightarrow> detector \<times> effect list" where
  "addDetectionEvent d event =
     (let pushed = detectionHistory d @ [event] in
      (d\<lparr>detectionHistory := (if length pushed > 50 then tl pushed else pushed)\<rparr>,
       [SeverityDisplay (ev_severity event)]))"

definition triggerAccidentAlert ::
  "detector \<Rightarrow> int \<Rightarrow> severity \<Rightarrow> details \<Rightarrow> detector \<times> effect list" where
  "triggerAccidentAlert d now severity dts =
     (if now - lastImpactTime d < 10000 then (d, [])
      else
        (let d1 = d\<lparr>lastImpactTime := now\<rparr> in
         if severity = Low \<or> severity = SevNone then (d1, [])
         else (d1, [ShowAlert severity dts])))"

text \<open>
  Rounding to binary64: a double is \<open>m * 2 ^ (e - 52)\<close> with an integer \<open>m\<close> of at most
  53 bits, where \<open>e\<close> is the exponent of the binade, at least \<open>- 1022\<close> (below that the
  doubles are subnormal and equally spaced).
\<close>

definition pow2 :: "int \<Rightarrow> real" where
  "pow2 e = (if 0 \<le> e then 2 ^ nat e else 1 / 2 ^ nat (- e))"

definition double_exponent :: "real \<Rightarrow> int" where
  "double_exponent x = max (- 1022) \<lfloor>log 2 \<bar>x\<bar>\<rfloor>"

definition round_half_even :: "real \<Rightarrow> int" where
  "round_half_even r =
     (if r - of_int \<lfloor>r\<rfloor> < 1 / 2 then \<lfloor>r\<rfloor>
      else if r - of_int \<lfloor>r\<rfloor> > 1 / 2 then \<lfloor>r\<rfloor> + 1
      else if even \<lfloor>r\<rfloor> then \<lfloor>r\<rfloor> else \<lfloor>r\<rfloor> + 1)"

definition to_double :: "real \<Rightarrow> real" where
  "to_double x =
     (if x = 0 then 0
      else pow2 (double_exponent x - 52)
             * of_int (round_half_even (x / pow2 (double_exponent x - 52))))"

definition double_sub :: "real \<Rightarrow> real \<Rightarrow> real" where
  "double_sub x y = to_double (x - y)"

definition rotation_event :: "real \<Rightarrow> real \<Rightarrow> int \<Rightarrow> detection_event" where
  "rotation_event deltaBeta deltaGamma now =
     \<lparr>ev_type = Rotation, ev_severity = High, ev_force = None, ev_duration = None,
      ev_soundLevel = None, ev_deltaBeta = Some deltaBeta, ev_deltaGamma = Some deltaGamma,
      ev_timestamp = now\<rparr>"

definition checkRotationAnomaly :: "detector \<Rightarrow> int \<Rightarrow> rotation \<Rightarrow> detector \<times> effect list" where
  "checkRotationAnomaly d now r =
     (case previousRotation d of
        None \<Rightarrow> (d\<lparr>previousRotation := Some r\<rparr>, [])
      | Some p \<Rightarrow>
          (let deltaBeta = \<bar>double_sub (beta r) (beta p)\<bar>;
               deltaGamma = \<bar>double_sub (gamma r) (gamma p)\<bar>;
               logged =
                 (if deltaBeta > suddenRotation (detectionThresholds d) \<or>
                     deltaGamma > suddenRotation (detectionThresholds d)
                  then addDetectionEvent d (rotation_event deltaBeta deltaGamma now)
                  else (d, []))
           in ((fst logged)\<lparr>previousRotation := Some r\<rparr>, snd logged)))"

definition impact_event :: "severity \<Rightarrow> real \<Rightarrow> int \<Rightarrow> int \<Rightarrow> detection_event" where
  "impact_event sev force duration now =
     \<lparr>ev_type = Impact, ev_severity = sev, ev_force = Some force, ev_duration = Some duration,
      ev_soundLevel = None, ev_deltaBeta = None, ev_deltaGamma = None, ev_timestamp = now\<rparr>"

definition impact_details :: "real \<Rightarrow> int \<Rightarrow> details" where
  "impact_details force duration =
     no_details\<lparr>det_impactForce := Some force, det_duration := Some duration\<rparr>"

text \<open>The impact branch of \<^verbatim>\<open>analyzeSensorData\<close> (lines 56 to 87).\<close>

definition impact_path :: "detector \<Rightarrow> int \<Rightarrow> real \<Rightarrow> detector \<times> effect list" where
  "impact_path d now force =
     (if force \<ge> lowImpact (detectionThresholds d) then
        (let d1 = (if \<not> sustainedHighForce d
                   then d\<lparr>highForceStartTime := now, sustainedHighForce := True\<rparr> else d);
             forceDuration = now - highForceStartTime d1;
             severity = calculateSeverity (detectionThresholds d1) force forceDuration;
             logged = addDetectionEvent d1 (impact_event severity force forceDuration now);
             alerted =
               (if severity \<noteq> SevNone
                then triggerAccidentAlert (fst logged) now severity
                       (impact_details force forceDuration)
                else (fst logged, []))
         in (fst alerted, snd logged @ snd alerted))
      else (d\<lparr>sustainedHighForce := False\<rparr>, []))"

definition analyzeSensorData :: "detector \<Rightarrow> int \<Rightarrow> sensor_data \<Rightarrow> detector \<times> effect list" where
  "analyzeSensorData d now sensorData =
     (if \<not> isActive d then (d, [])
      else
        (let impacted = impact_path d now (impactForce sensorData);
             rotated = checkRotationAnomaly (fst impacted) now (rotation sensorData)
         in (fst rotated, snd impacted @ snd rotated)))"

definition combined_event :: "severity \<Rightarrow> int \<Rightarrow> int \<Rightarrow> detection_event" where
  "combined_event sev soundLevel now =
     \<lparr>ev_type = Combined, ev_severity = sev, ev_force = None, ev_duration = None,
      ev_soundLevel = Some soundLevel, ev_deltaBeta = None, ev_deltaGamma = None,
      ev_timestamp = now\<rparr>"

definition combined_details :: "int \<Rightarrow> details" where
  "combined_details soundLevel =
     no_details\<lparr>det_soundLevel := Some soundLevel, det_combined := True\<rparr>"

definition analyzeAudioData :: "detector \<Rightarrow> int \<Rightarrow> audio_data \<Rightarrow> detector \<times> effect list" where
  "analyzeAudioData d now audioData =
     (if \<not> isActive d then (d, [])
      else if level audioData \<ge> crashSoundLevel (detectionThresholds d) then
        (if now - lastImpactTime d > 5000 then
           (case hasRecentImpact d now 2000 of
              None \<Rightarrow> (d, [])
            | Some recentImpact \<Rightarrow>
                (let severity = calculateCombinedSeverity (detectionThresholds d) recentImpact
                                  (level audioData);
                     logged = addDetectionEvent d (combined_event severity (level audioData) now);
                     alerted = triggerAccidentAlert (fst logged) now severity
                                 (combined_details (level audioData))
                 in (fst alerted, snd logged @ snd alerted)))
         else (d, []))
      else (d, []))"

section \<open>Alert lifecycle (alert.js)\<close>

text \<open>
  What the browser offers: \<^verbatim>\<open>window.SpeechRecognition\<close>, a working \<^verbatim>\<open>AudioContext\<close>
  constructor, \<^verbatim>\<open>navigator.vibrate\<close>, and the global \<^verbatim>\<open>emergencyHandler\<close>. The page's
  elements are taken to exist.
\<close>

record browser =
  speechRecognitionSupported :: bool
  audioContextSupported :: bool
  vibrateSupported :: bool
  emergencyHandlerDefined :: bool

text \<open>
  \<open>countdownTimer\<close> is the interval of \<^verbatim>\<open>startCountdown\<close> together with the variable
  \<^verbatim>\<open>timeLeft\<close> its callback closes over: \<open>None\<close> is \<^verbatim>\<open>null\<close>. The listeners and the beep
  interval are \<open>True\<close> while armed (not \<^verbatim>\<open>null\<close>).
\<close>

record alert_handler =
  isAlertActive :: bool
  countdownTimer :: "int option"
  countdownSeconds :: int
  currentSeverity :: severity
  alertDetails :: details
  voiceRecognition :: bool
  shakeDetection :: bool
  alertAudioContext :: bool
  beepInterval :: bool

definition new_handler :: alert_handler where
  "new_handler = \<lparr>isAlertActive = False, countdownTimer = None, countdownSeconds = 30,
     currentSeverity = Medium, alertDetails = no_details, voiceRecognition = False,
     shakeDetection = False, alertAudioContext = False, beepInterval = False\<rparr>"

text \<open>\<^verbatim>\<open>times[severity] || 30\<close>: a severity the table does not list gets 30.\<close>

fun getCountdownTime :: "severity \<Rightarrow> int" where
  "getCountdownTime Low = 60"
| "getCountdownTime Medium = 30"
| "getCountdownTime High = 20"
| "getCountdownTime Critical = 15"
| "getCountdownTime SevNone = 30"

definition startCountdown :: "alert_handler \<Rightarrow> alert_handler \<times> effect list" where
  "startCountdown h = (h\<lparr>countdownTimer := Some (countdownSeconds h)\<rparr>, [CountdownInterval 1000])"

definition clearCountdown :: "alert_handler \<Rightarrow> alert_handler" where
  "clearCountdown h = h\<lparr>countdownTimer := None\<rparr>"

definition startVoiceRecognition :: "browser \<Rightarrow> alert_handler \<Rightarrow> alert_handler" where
  "startVoiceRecognition b h =
     (if \<not> speechRecognitionSupported b then h else h\<lparr>voiceRecognition := True\<rparr>)"

definition stopVoiceRecognition :: "alert_handler \<Rightarrow> alert_handler" where
  "stopVoiceRecognition h = h\<lparr>voiceRecognition := False\<rparr>"

definition startShakeDetection :: "alert_handler \<Rightarrow> alert_handler" where
  "startShakeDetection h = h\<lparr>shakeDetection := True\<rparr>"

definition stopShakeDetection :: "alert_handler \<Rightarrow> alert_handler" where
  "stopShakeDetection h = h\<lparr>shakeDetection := False\<rparr>"

definition playAlertSound :: "browser \<Rightarrow> effect list" where
  "playAlertSound b = (if audioContextSupported b then [AlertSound] else [])"

text \<open>A beep creates the shared audio context when there is none; a failure is caught.\<close>

definition playBeep :: "browser \<Rightarrow> alert_handler \<Rightarrow> alert_handler \<times> effect list" where
  "playBeep b h =
     (if alertAudioContext h \<or> audioContextSupported b
      then (h\<lparr>alertAudioContext := True\<rparr>, [Beep]) else (h, []))"

definition playUrgentBeep :: "browser \<Rightarrow> alert_handler \<Rightarrow> alert_handler \<times> effect list" where
  "playUrgentBeep b h =
     (if alertAudioContext h \<or> audioContextSupported b
      then (h\<lparr>alertAudioContext := True\<rparr>, [UrgentBeep]) else (h, []))"

definition startContinuousBeeping :: "browser \<Rightarrow> alert_handler \<Rightarrow> alert_handler \<times> effect list" where
  "startContinuousBeeping b h =
     (fst (playBeep b (h\<lparr>beepInterval := True\<rparr>)),
      BeepInterval 2000 # snd (playBeep b (h\<lparr>beepInterval := True\<rparr>)))"

definition stopContinuousBeeping :: "alert_handler \<Rightarrow> alert_handler" where
  "stopContinuousBeeping h = h\<lparr>beepInterval := False, alertAudioContext := False\<rparr>"

definition vibrateDevice :: "browser \<Rightarrow> effect list" where
  "vibrateDevice b = (if vibrateSupported b then [Vibrate] else [])"

definition showAlert ::
  "browser \<Rightarrow> alert_handler \<Rightarrow> severity \<Rightarrow> details \<Rightarrow> alert_handler \<times> effect list" where
  "showAlert b h severity dts =
     (if isAlertActive h then (h, [])
      else
        (let h1 = h\<lparr>isAlertActive := True, currentSeverity := severity, alertDetails := dts,
                     countdownSeconds := getCountdownTime severity\<rparr>;
             counting = startCountdown h1;
             h2 = startShakeDetection (startVoiceRecognition b (fst counting));
             beeping = startContinuousBeeping b h2
         in (fst beeping,
             [SwitchScreen AlertScreen, AlertDisplay severity (countdownSeconds h1),
              LocationRequest] @ snd counting @ playAlertSound b @ snd beeping
               @ vibrateDevice b)))"

text \<open>The continuation of \<^verbatim>\<open>updateLocation\<close> once the position has arrived.\<close>

definition updateLocation_resolved :: "alert_handler \<Rightarrow> position \<Rightarrow> alert_handler" where
  "updateLocation_resolved h pos =
     h\<lparr>alertDetails := (alertDetails h)\<lparr>det_location := Some pos\<rparr>\<rparr>"

text \<open>
  \<^verbatim>\<open>cancelAlert\<close> and \<^verbatim>\<open>sendEmergencyAlert\<close> start with the same five statements: clear
  the countdown, stop both listeners, stop the beeping, \<^verbatim>\<open>isAlertActive = false\<close>.
\<close>

definition disarm :: "alert_handler \<Rightarrow> alert_handler" where
  "disarm h =
     (stopContinuousBeeping (stopShakeDetection (stopVoiceRecognition (clearCountdown h))))
       \<lparr>isAlertActive := False\<rparr>"

definition cancelAlert :: "alert_handler \<Rightarrow> alert_handler \<times> effect list" where
  "cancelAlert h = (disarm h, [SwitchScreen Dashboard, ResetTimeout 5000])"

definition sendEmergencyAlert :: "browser \<Rightarrow> alert_handler \<Rightarrow> alert_handler \<times> effect list" where
  "sendEmergencyAlert b h =
     (let h1 = disarm h in
      if \<not> emergencyHandlerDefined b then (h1, [ErrorDialog])
      else (h1, [Dispatch (currentSeverity h1) (alertDetails h1), SwitchScreen EmergencyScreen]))"

text \<open>One run of the interval callback of \<^verbatim>\<open>startCountdown\<close>; nothing runs once it is cleared.\<close>

definition countdown_tick :: "browser \<Rightarrow> alert_handler \<Rightarrow> alert_handler \<times> effect list" where
  "countdown_tick b h =
     (case countdownTimer h of
        None \<Rightarrow> (h, [])
      | Some timeLeft \<Rightarrow>
          (let cue = (if timeLeft \<le> 10 \<and> timeLeft > 0
                      then (fst (playUrgentBeep b h), snd (playUrgentBeep b h) @ vibrateDevice b)
                      else (h, []));
               shown = CountdownDisplay (max 0 timeLeft) # snd cue;
               timeLeft1 = timeLeft - 1
           in if timeLeft1 < 0
              then (let sent = sendEmergencyAlert b (clearCountdown (fst cue))
                    in (fst sent, shown @ snd sent))
              else ((fst cue)\<lparr>countdownTimer := Some timeLeft1\<rparr>, shown)))"

definition beep_tick :: "browser \<Rightarrow> alert_handler \<Rightarrow> alert_handler \<times> effect list" where
  "beep_tick b h = (if beepInterval h then playBeep b h else (h, []))"

fun ticks :: "browser \<Rightarrow> nat \<Rightarrow> alert_handler \<Rightarrow> alert_handler \<times> effect list" where
  "ticks b 0 h = (h, [])"
| "ticks b (Suc k) h =
     (let r1 = countdown_tick b h; r2 = ticks b k (fst r1) in (fst r2, snd r1 @ snd r2))"

fun is_CountdownInterval :: "effect \<Rightarrow> bool" where
  "is_CountdownInterval (CountdownInterval ms) = True"
| "is_CountdownInterval e = False"

fun is_escalation :: "effect \<Rightarrow> bool" where
  "is_escalation (Dispatch s dts) = True"
| "is_escalation ErrorDialog = True"
| "is_escalation e = False"

section \<open>The two components together\<close>

text \<open>
  The page holds one engine and one handler. Beside them the state records what the
  event loop still owes: the due times of the \<^verbatim>\<open>setTimeout\<close> calls of \<^verbatim>\<open>cancelAlert\<close>, the
  calls of the asynchronous \<^verbatim>\<open>emergencyHandler.sendAlert\<close> that have not completed (it
  awaits the position and the notifications; \<^verbatim>\<open>sendEmergencyAlert\<close> does not await it), and
  the position requests of \<^verbatim>\<open>updateLocation\<close> not yet answered.
\<close>

record system =
  accidentDetector :: detector
  alertHandler :: alert_handler
  resetTimers :: "int list"
  dispatchesInFlight :: nat
  locationRequests :: nat

definition new_system :: system where
  "new_system = \<lparr>accidentDetector = new_detector, alertHandler = new_handler,
     resetTimers = [], dispatchesInFlight = 0, locationRequests = 0\<rparr>"

text \<open>
  The callbacks the event loop can run. \<open>CancelAlert\<close> is the cancel button, a matched
  keyword or a matched shake: all three call \<^verbatim>\<open>cancelAlert\<close>.
\<close>

datatype event =
    StartMonitoring
  | StopMonitoring
  | Motion sensor_data
  | Audio audio_data
  | CountdownTick
  | BeepTick
  | CancelAlert
  | CallEmergencyNow
  | ResetFires
  | DispatchCompletes
  | LocationResolved position
  | LocationFailed

fun book :: "int \<Rightarrow> effect \<Rightarrow> system \<Rightarrow> system" where
  "book now (ResetTimeout ms) s = s\<lparr>resetTimers := resetTimers s @ [now + ms]\<rparr>"
| "book now (Dispatch sev dts) s = s\<lparr>dispatchesInFlight := Suc (dispatchesInFlight s)\<rparr>"
| "book now LocationRequest s = s\<lparr>locationRequests := Suc (locationRequests s)\<rparr>"
| "book now e s = s"

definition handler_call :: "int \<Rightarrow> alert_handler \<times> effect list \<Rightarrow> system \<Rightarrow> system \<times> effect list" where
  "handler_call now r s = (fold (book now) (snd r) (s\<lparr>alertHandler := fst r\<rparr>), snd r)"

text \<open>The engine's call of \<^verbatim>\<open>showAlert\<close> runs the handler at once, inside the same callback.\<close>

fun deliver :: "browser \<Rightarrow> int \<Rightarrow> effect \<Rightarrow> system \<Rightarrow> system \<times> effect list" where
  "deliver b now (ShowAlert sev dts) s =
     (let r = handler_call now (showAlert b (alertHandler s) sev dts) s
      in (fst r, ShowAlert sev dts # snd r))"
| "deliver b now e s = (s, [e])"

fun deliver_all :: "browser \<Rightarrow> int \<Rightarrow> effect list \<Rightarrow> system \<Rightarrow> system \<times> effect list" where
  "deliver_all b now [] s = (s, [])"
| "deliver_all b now (e # es) s =
     (let r1 = deliver b now e s; r2 = deliver_all b now es (fst r1)
      in (fst r2, snd r1 @ snd r2))"

definition engine_call :: "browser \<Rightarrow> int \<Rightarrow> detector \<times> effect list \<Rightarrow> system \<Rightarrow> system \<times> effect list" where
  "engine_call b now r s = deliver_all b now (snd r) (s\<lparr>accidentDetector := fst r\<rparr>)"

fun step :: "browser \<Rightarrow> int \<Rightarrow> event \<Rightarrow> system \<Rightarrow> system \<times> effect list" where
  "step b now StartMonitoring s = (s\<lparr>accidentDetector := start (accidentDetector s)\<rparr>, [])"
| "step b now StopMonitoring s = (s\<lparr>accidentDetector := stop (accidentDetector s)\<rparr>, [])"
| "step b now (Motion sensorData) s =
     engine_call b now (analyzeSensorData (accidentDetector s) now sensorData) s"
| "step b now (Audio audioData) s =
     engine_call b now (analyzeAudioData (accidentDetector s) now audioData) s"
| "step b now CountdownTick s = handler_call now (countdown_tick b (alertHandler s)) s"
| "step b now BeepTick s = handler_call now (beep_tick b (alertHandler s)) s"
| "step b now CancelAlert s = handler_call now (cancelAlert (alertHandler s)) s"
| "step b now CallEmergencyNow s = handler_call now (sendEmergencyAlert b (alertHandler s)) s"
| "step b now ResetFires s =
     (case resetTimers s of
        [] \<Rightarrow> (s, [])
      | due # rest \<Rightarrow>
          if due \<le> now
          then (s\<lparr>accidentDetector := (accidentDetector s)\<lparr>lastImpactTime := 0\<rparr>,
                  resetTimers := rest\<rparr>, [])
          else (s, []))"
| "step b now DispatchCompletes s = (s\<lparr>dispatchesInFlight := dispatchesInFlight s - 1\<rparr>, [])"
| "step b now (LocationResolved pos) s =
     (if locationRequests s = 0 then (s, [])
      else (s\<lparr>alertHandler := updateLocation_resolved (alertHandler s) pos,
              locationRequests := locationRequests s - 1\<rparr>, []))"
| "step b now LocationFailed s = (s\<lparr>locationRequests := locationRequests s - 1\<rparr>, [])"

text \<open>A run of timed callbacks: the state it reaches, and the effects with their times.\<close>

fun run :: "browser \<Rightarrow> system \<Rightarrow> (int \<times> event) list \<Rightarrow> system" where
  "run b s [] = s"
| "run b s (te # evs) = run b (fst (step b (fst te) (snd te) s)) evs"

fun trace :: "browser \<Rightarrow> system \<Rightarrow> (int \<times> event) list \<Rightarrow> (int \<times> effect) list" where
  "trace b s [] = []"
| "trace b s (te # evs) =
     map (Pair (fst te)) (snd (step b (fst te) (snd te) s))
       @ trace b (fst (step b (fst te) (snd te) s)) evs"

fun is_ShowAlert :: "effect \<Rightarrow> bool" where
  "is_ShowAlert (ShowAlert sev dts) = True"
| "is_ShowAlert e = False"

text \<open>The times of the honoured alert requests of a run, in order.\<close>

definition honoured :: "browser \<Rightarrow> system \<Rightarrow> (int \<times> event) list \<Rightarrow> int list" where
  "honoured b s evs = map fst (filter (\<lambda>te. is_ShowAlert (snd te)) (trace b s evs))"

section \<open>Specification-side definitions and concrete inputs\<close>

text \<open>
  The classification as the specification words it, with the default cut points written
  out: first match wins.
\<close>

definition classify_spec :: "real \<Rightarrow> int \<Rightarrow> severity" where
  "classify_spec g dur =
     (if 8.0 \<le> g \<or> (6.0 \<le> g \<and> 200 \<le> dur) then Critical
      else if 6.0 \<le> g then High
      else if 4.0 \<le> g then Medium
      else if 2.5 \<le> g then Low
      else SevNone)"


text \<open>Countdown clock, both listeners and the cues are off.\<close>

definition disarmed :: "alert_handler \<Rightarrow> bool" where
  "disarmed h = (countdownTimer h = None \<and> \<not> voiceRecognition h \<and> \<not> shakeDetection h \<and>
     \<not> beepInterval h \<and> \<not> alertAudioContext h)"

text \<open>What the cooldown gate guarantees about one call of the engine at time \<open>now\<close>.\<close>

definition gated :: "detector \<Rightarrow> int \<Rightarrow> detector \<times> effect list \<Rightarrow> bool" where
  "gated d now r =
     (lastImpactTime d \<le> lastImpactTime (fst r) \<and>
      (filter is_ShowAlert (snd r) = [] \<or>
       length (filter is_ShowAlert (snd r)) = 1 \<and> lastImpactTime d + 10000 \<le> now \<and>
         lastImpactTime (fst r) = now))"

definition full_browser :: browser where
  "full_browser = \<lparr>speechRecognitionSupported = True, audioContextSupported = True,
     vibrateSupported = True, emergencyHandlerDefined = True\<rparr>"

definition level_rotation :: rotation where
  "level_rotation = \<lparr>alpha = 0, beta = 0, gamma = 0\<rparr>"

definition impact_sample :: "real \<Rightarrow> event" where
  "impact_sample g = Motion \<lparr>impactForce = g, rotation = level_rotation\<rparr>"


text \<open>A burst of critical impacts with a cancellation in between, and no reset firing.\<close>

definition burst_run :: "(int \<times> event) list" where
  "burst_run =
     [(100000, StartMonitoring), (100000, impact_sample 9), (100001, impact_sample 9),
      (101000, CancelAlert), (103000, impact_sample 9), (110000, impact_sample 9)]"

text \<open>An alert is cancelled after one second; the reset fires five seconds later.\<close>

definition cancelled_run :: "(int \<times> event) list" where
  "cancelled_run =
     [(100000, StartMonitoring), (100000, impact_sample 5.2), (101000, CancelAlert),
      (106000, ResetFires), (106001, impact_sample 5.2)]"

text \<open>The handler invariant: a session that is not active has everything switched off.\<close>

definition quiet :: "alert_handler \<Rightarrow> bool" where
  "quiet h = (isAlertActive h \<or> disarmed h)"

definition tilted_sample :: sensor_data where
  "tilted_sample = \<lparr>impactForce = 1, rotation = \<lparr>alpha = 0, beta = 60, gamma = 0\<rparr>\<rparr>"

text \<open>
  The doubles nearest to 0.1 and 45.1; their exact difference is a little above 45, their
  double difference is 45.
\<close>

definition tenth_rotation :: rotation where
  "tenth_rotation = \<lparr>alpha = 0, beta = 3602879701896397 / 36028797018963968, gamma = 0\<rparr>"

definition threshold_sample :: sensor_data where
  "threshold_sample =
     \<lparr>impactForce = 1,
      rotation = \<lparr>alpha = 0, beta = 6347260724825293 / 140737488355328, gamma = 0\<rparr>\<rparr>"


definition loud_sample :: audio_data where
  "loud_sample = \<lparr>level = 105, peak = 105\<rparr>"

text \<open>The handler in the middle of a High alert.\<close>

definition high_alert :: alert_handler where
  "high_alert = fst (showAlert full_browser new_handler High (impact_details 7 0))"

text \<open>A critical impact and the fifteen ticks that bring its countdown to 0.\<close>

definition countdown_run :: "(int \<times> event) list" where
  "countdown_run = [(100000, StartMonitoring), (100000, impact_sample 9),
     (101000, CountdownTick), (102000, CountdownTick), (103000, CountdownTick),
     (104000, CountdownTick), (105000, CountdownTick), (106000, CountdownTick),
     (107000, CountdownTick), (108000, CountdownTick), (109000, CountdownTick),
     (110000, CountdownTick), (111000, CountdownTick), (112000, CountdownTick),
     (113000, CountdownTick), (114000, CountdownTick), (115000, CountdownTick)]"

text \<open>A minor bump: logged, no alert, the handler stays idle.\<close>

definition low_impact_run :: "(int \<times> event) list" where
  "low_impact_run = [(100000, StartMonitoring), (100000, impact_sample 3)]"

section \<open>Evaluation rules\<close>

lemmas engine_defs = analyzeSensorData_def analyzeAudioData_def impact_path_def
  checkRotationAnomaly_def triggerAccidentAlert_def addDetectionEvent_def
  calculateSeverity_def calculateCombinedSeverity_def hasRecentImpact_def
  impact_event_def impact_details_def combined_event_def combined_details_def
  rotation_event_def no_details_def start_def stop_def new_detector_def default_thresholds_def
  double_sub_def to_double_def

lemmas handler_defs = showAlert_def cancelAlert_def sendEmergencyAlert_def countdown_tick_def
  beep_tick_def disarm_def startCountdown_def clearCountdown_def startVoiceRecognition_def
  stopVoiceRecognition_def startShakeDetection_def stopShakeDetection_def playAlertSound_def
  playBeep_def playUrgentBeep_def startContinuousBeeping_def stopContinuousBeeping_def
  vibrateDevice_def new_handler_def

lemmas system_defs = new_system_def handler_call_def engine_call_def full_browser_def
  level_rotation_def impact_sample_def honoured_def

section \<open>Rounding\<close>

lemma floor_log2_ge1:
  fixes x :: real
  assumes "1 \<le> x"
  shows "\<lfloor>log 2 x\<rfloor> = bitlen \<lfloor>x\<rfloor> - 1"
proof -
  define m where "m = \<lfloor>x\<rfloor>"
  define k where "k = bitlen m - 1"
  have m: "0 < m" using assms by (simp add: m_def)
  from bitlen_bounds [OF m] have b: "2 ^ nat k \<le> m" "m < 2 ^ nat (bitlen m)"
    by (simp_all add: k_def)
  have k0: "0 \<le> k" using m by (simp add: k_def bitlen_alt_def)
  have nb: "nat (bitlen m) = Suc (nat k)" using k0 by (simp add: k_def)
  have lo: "(2::real) ^ nat k \<le> x"
  proof -
    have "(2::real) ^ nat k = of_int (2 ^ nat k)" by simp
    also have "\<dots> \<le> of_int m" using b(1) by (simp only: of_int_le_iff)
    also have "\<dots> \<le> x" by (simp add: m_def)
    finally show ?thesis .
  qed
  have hi: "x < 2 * (2::real) ^ nat k"
  proof -
    have "m + 1 \<le> 2 ^ Suc (nat k)" using b(2) nb by simp
    then have "of_int (m + 1) \<le> (of_int (2 ^ Suc (nat k)) :: real)" by (simp only: of_int_le_iff)
    also have "\<dots> = 2 * 2 ^ nat k" by simp
    finally have "of_int (m + 1) \<le> 2 * (2::real) ^ nat k" .
    moreover have "x < of_int (m + 1)" unfolding m_def by linarith
    ultimately show ?thesis by linarith
  qed
  have p1: "2 powr real_of_int k = 2 ^ nat k" using k0 by (simp add: powr_real_of_int)
  have p2: "2 powr (real_of_int k + 1) = 2 * 2 ^ nat k" by (simp add: powr_add p1)
  have "0 < x" using assms by simp
  then have "\<lfloor>log 2 x\<rfloor> = k"
    using lo hi by (subst floor_log_eq_powr_iff) (simp_all add: p1 p2)
  then show ?thesis by (simp add: k_def m_def)
qed

lemma floor_log2_lt1:
  fixes x :: real
  assumes "0 < x" "x < 1"
  shows "\<lfloor>log 2 x\<rfloor> = - bitlen (\<lceil>1 / x\<rceil> - 1)"
proof -
  define n where "n = \<lceil>1 / x\<rceil>"
  define j where "j = bitlen (n - 1)"
  have y: "1 < 1 / x" using assms by simp
  then have n2: "2 \<le> n" unfolding n_def by linarith
  then have p: "0 < n - 1" by simp
  from bitlen_bounds [OF p] have b: "2 ^ nat (j - 1) \<le> n - 1" "n - 1 < 2 ^ nat j"
    by (simp_all add: j_def)
  have j1: "1 \<le> j" using p by (simp add: j_def bitlen_alt_def)
  have nj: "nat j = Suc (nat (j - 1))" using j1 by simp
  have up: "1 / x \<le> 2 ^ nat j"
  proof -
    have "1 / x \<le> of_int n" unfolding n_def by linarith
    also have "n \<le> 2 ^ nat j" using b(2) by simp
    then have "of_int n \<le> (of_int (2 ^ nat j) :: real)" by (simp only: of_int_le_iff)
    also have "(of_int (2 ^ nat j) :: real) = 2 ^ nat j" by simp
    finally show ?thesis .
  qed
  have dn: "2 ^ nat (j - 1) < 1 / x"
  proof -
    have "(2::real) ^ nat (j - 1) = of_int (2 ^ nat (j - 1))" by simp
    also have "\<dots> \<le> of_int (n - 1)" using b(1) by (simp only: of_int_le_iff)
    also have "\<dots> < 1 / x" unfolding n_def by linarith
    finally show ?thesis .
  qed
  have lo: "1 / 2 ^ nat j \<le> x"
    using up assms by (simp add: field_simps)
  have hi: "x < 2 * (1 / 2 ^ nat j)"
    using dn assms by (simp add: field_simps nj)
  have pj: "2 powr real_of_int j = 2 ^ nat j"
    using j1 by (simp add: powr_real_of_int)
  have p1: "2 powr (- real_of_int j) = 1 / 2 ^ nat j"
    by (simp add: powr_minus_divide pj)
  have p2: "2 powr (1 - real_of_int j) = 2 / 2 ^ nat j"
    by (simp add: powr_diff pj)
  have "\<lfloor>log 2 x\<rfloor> = - j"
    using assms(1) lo hi by (subst floor_log_eq_powr_iff) (simp_all add: p1 p2)
  then show ?thesis by (simp add: j_def n_def)
qed

lemma double_exponent_compute:
  "x \<noteq> 0 \<Longrightarrow> double_exponent x =
     max (- 1022) (if 1 \<le> \<bar>x\<bar> then bitlen \<lfloor>\<bar>x\<bar>\<rfloor> - 1 else - bitlen (\<lceil>1 / \<bar>x\<bar>\<rceil> - 1))"
  by (simp add: double_exponent_def floor_log2_ge1 floor_log2_lt1)

lemma double_sub_same [simp]: "double_sub x x = 0"
  by (simp add: double_sub_def to_double_def)

lemma to_double_60: "to_double 60 = 60"
  by (simp add: to_double_def double_exponent_compute compute_bitlen pow2_def round_half_even_def)

lemma to_double_threshold:
  "double_sub (6347260724825293 / 140737488355328) (3602879701896397 / 36028797018963968) = 45"
  by (simp add: double_sub_def to_double_def double_exponent_compute compute_bitlen pow2_def
      round_half_even_def)

section \<open>Basic facts about the engine\<close>

lemma fst_addDetectionEvent_fields [simp]:
  "isActive (fst (addDetectionEvent d e)) = isActive d"
  "detectionThresholds (fst (addDetectionEvent d e)) = detectionThresholds d"
  "lastImpactTime (fst (addDetectionEvent d e)) = lastImpactTime d"
  "highForceStartTime (fst (addDetectionEvent d e)) = highForceStartTime d"
  "sustainedHighForce (fst (addDetectionEvent d e)) = sustainedHighForce d"
  "previousRotation (fst (addDetectionEvent d e)) = previousRotation d"
  "snd (addDetectionEvent d e) = [SeverityDisplay (ev_severity e)]"
  by (simp_all add: addDetectionEvent_def Let_def)

lemma checkRotationAnomaly_lastImpactTime [simp]:
  "lastImpactTime (fst (checkRotationAnomaly d now r)) = lastImpactTime d"
  by (simp add: checkRotationAnomaly_def Let_def split: option.splits)

lemma checkRotationAnomaly_requests [simp]:
  "filter is_ShowAlert (snd (checkRotationAnomaly d now r)) = []"
  by (simp add: checkRotationAnomaly_def Let_def split: option.splits)


lemma gated_triggerAccidentAlert: "gated d now (triggerAccidentAlert d now sev dts)"
  by (simp add: gated_def triggerAccidentAlert_def Let_def)

lemma gated_impact_path: "gated d now (impact_path d now g)"
proof (cases "g \<ge> lowImpact (detectionThresholds d)")
  case False
  then show ?thesis by (simp add: gated_def impact_path_def)
next
  case True
  define d1 where "d1 = (if \<not> sustainedHighForce d
                   then d\<lparr>highForceStartTime := now, sustainedHighForce := True\<rparr> else d)"
  define sev where "sev = calculateSeverity (detectionThresholds d1) g (now - highForceStartTime d1)"
  define lg where "lg = addDetectionEvent d1 (impact_event sev g (now - highForceStartTime d1) now)"
  have l1: "lastImpactTime (fst lg) = lastImpactTime d"
    by (simp add: lg_def d1_def)
  have g1: "gated (fst lg) now (triggerAccidentAlert (fst lg) now sev (impact_details g (now - highForceStartTime d1)))"
    by (rule gated_triggerAccidentAlert)
  have eq: "impact_path d now g =
      (let alerted = (if sev \<noteq> SevNone then triggerAccidentAlert (fst lg) now sev
                       (impact_details g (now - highForceStartTime d1)) else (fst lg, []))
       in (fst alerted, snd lg @ snd alerted))"
    using True by (simp add: impact_path_def Let_def lg_def sev_def d1_def)
  show ?thesis
    using g1 l1 by (simp add: eq gated_def lg_def Let_def)
qed

lemma gated_analyzeSensorData: "gated d now (analyzeSensorData d now sd)"
  using gated_impact_path [of d now "impactForce sd"]
  by (simp add: analyzeSensorData_def gated_def Let_def)

lemma gated_analyzeAudioData: "gated d now (analyzeAudioData d now a)"
proof -
  have triv: "gated d now (d, [])" by (simp add: gated_def)
  show ?thesis
  proof (cases "hasRecentImpact d now 2000")
    case None
    then show ?thesis using triv by (simp add: analyzeAudioData_def)
  next
    case (Some ev)
    define sev where "sev = calculateCombinedSeverity (detectionThresholds d) ev (level a)"
    define lg where "lg = addDetectionEvent d (combined_event sev (level a) now)"
    have g1: "gated (fst lg) now (triggerAccidentAlert (fst lg) now sev (combined_details (level a)))"
      by (rule gated_triggerAccidentAlert)
    have l1: "lastImpactTime (fst lg) = lastImpactTime d" by (simp add: lg_def)
    have "gated d now (fst (triggerAccidentAlert (fst lg) now sev (combined_details (level a))),
             snd lg @ snd (triggerAccidentAlert (fst lg) now sev (combined_details (level a))))"
      using g1 l1 by (simp add: gated_def lg_def)
    then show ?thesis
      using triv Some by (simp add: analyzeAudioData_def Let_def sev_def lg_def)
  qed
qed

text \<open>The handler requests no alert, and bookkeeping leaves the engine alone.\<close>

lemma fold_book_detector [simp]:
  "accidentDetector (fold (book now) effs s) = accidentDetector s"
proof (induction effs arbitrary: s)
  case Nil
  show ?case by simp
next
  case (Cons e effs)
  have "accidentDetector (book now e s) = accidentDetector s" by (cases e) simp_all
  with Cons show ?case by simp
qed

lemma handler_call_detector [simp]:
  "accidentDetector (fst (handler_call now r s)) = accidentDetector s"
  by (simp add: handler_call_def)

lemma handler_call_effects [simp]: "snd (handler_call now r s) = snd r"
  by (simp add: handler_call_def)

lemma showAlert_requests [simp]: "filter is_ShowAlert (snd (showAlert b h sev dts)) = []"
  by (simp add: showAlert_def Let_def playAlertSound_def startContinuousBeeping_def
      startCountdown_def playBeep_def vibrateDevice_def)

lemma sendEmergencyAlert_requests [simp]: "filter is_ShowAlert (snd (sendEmergencyAlert b h)) = []"
  by (simp add: sendEmergencyAlert_def Let_def)

lemma countdown_tick_requests [simp]: "filter is_ShowAlert (snd (countdown_tick b h)) = []"
  by (simp add: countdown_tick_def Let_def playUrgentBeep_def vibrateDevice_def
      split: option.splits)

lemma beep_tick_requests [simp]: "filter is_ShowAlert (snd (beep_tick b h)) = []"
  by (simp add: beep_tick_def playBeep_def)

lemma cancelAlert_requests [simp]: "filter is_ShowAlert (snd (cancelAlert h)) = []"
  by (simp add: cancelAlert_def)

lemma deliver_detector [simp]: "accidentDetector (fst (deliver b now e s)) = accidentDetector s"
  by (cases e) (simp_all add: Let_def)

lemma deliver_requests [simp]:
  "filter is_ShowAlert (snd (deliver b now e s)) = filter is_ShowAlert [e]"
  by (cases e) (simp_all add: Let_def)

lemma deliver_all_detector [simp]:
  "accidentDetector (fst (deliver_all b now effs s)) = accidentDetector s"
  by (induction effs arbitrary: s) (simp_all add: Let_def)

lemma deliver_all_requests [simp]:
  "filter is_ShowAlert (snd (deliver_all b now effs s)) = filter is_ShowAlert effs"
  by (induction effs arbitrary: s) (simp_all add: Let_def)

lemma gated_step:
  assumes "e \<noteq> ResetFires"
  shows "gated (accidentDetector s) now
           (accidentDetector (fst (step b now e s)), snd (step b now e s))"
proof (cases e)
  case (Motion sd)
  then show ?thesis
    using gated_analyzeSensorData [of "accidentDetector s" now sd]
    by (simp add: engine_call_def gated_def)
next
  case (Audio a)
  then show ?thesis
    using gated_analyzeAudioData [of "accidentDetector s" now a]
    by (simp add: engine_call_def gated_def)
qed (use assms in \<open>simp_all add: gated_def start_def stop_def\<close>)


lemma honoured_Cons:
  "honoured b s (te # evs) =
     replicate (length (filter is_ShowAlert (snd (step b (fst te) (snd te) s)))) (fst te)
       @ honoured b (fst (step b (fst te) (snd te) s)) evs"
proof -
  have "map fst (filter (\<lambda>te. is_ShowAlert (snd te)) (map (Pair t) effs)) =
        replicate (length (filter is_ShowAlert effs)) t" for t :: int and effs
    by (induction effs) simp_all
  then show ?thesis by (simp add: honoured_def)
qed

lemma honoured_spaced_aux:
  "\<forall>te \<in> set evs. snd te \<noteq> ResetFires \<Longrightarrow>
     sorted_wrt (\<lambda>t1 t2. t1 + 10000 \<le> t2) (honoured b s evs) \<and>
     (\<forall>t \<in> set (honoured b s evs). lastImpactTime (accidentDetector s) + 10000 \<le> t)"
proof (induction evs arbitrary: s)
  case Nil
  show ?case by (simp add: honoured_def)
next
  case (Cons te evs)
  define s1 where "s1 = fst (step b (fst te) (snd te) s)"
  define k where "k = length (filter is_ShowAlert (snd (step b (fst te) (snd te) s)))"
  from Cons.prems have nr: "snd te \<noteq> ResetFires" and rest: "\<forall>te \<in> set evs. snd te \<noteq> ResetFires"
    by simp_all
  have ih: "sorted_wrt (\<lambda>t1 t2. t1 + 10000 \<le> t2) (honoured b s1 evs)"
    "\<forall>t \<in> set (honoured b s1 evs). lastImpactTime (accidentDetector s1) + 10000 \<le> t"
    using Cons.IH [OF rest, of s1] by simp_all
  have g: "gated (accidentDetector s) (fst te) (accidentDetector s1, snd (step b (fst te) (snd te) s))"
    unfolding s1_def by (rule gated_step [OF nr])
  have eq: "honoured b s (te # evs) = replicate k (fst te) @ honoured b s1 evs"
    by (simp add: honoured_Cons k_def s1_def)
  from g have mono: "lastImpactTime (accidentDetector s) \<le> lastImpactTime (accidentDetector s1)"
    by (simp add: gated_def)
  from g consider (none) "k = 0"
    | (one) "k = 1" "lastImpactTime (accidentDetector s) + 10000 \<le> fst te"
        "lastImpactTime (accidentDetector s1) = fst te"
    by (auto simp: gated_def k_def)
  then show ?case
  proof cases
    case none
    with ih mono show ?thesis by (auto simp: eq)
  next
    case one
    with ih mono show ?thesis by (auto simp: eq)
  qed
qed


section \<open>Claims about the detection engine\<close>

lemma last_addDetectionEvent: "last (detectionHistory (fst (addDetectionEvent d e))) = e"
  by (cases "detectionHistory d") (simp_all add: addDetectionEvent_def Let_def last_tl)

lemma triggerAccidentAlert_history [simp]:
  "detectionHistory (fst (triggerAccidentAlert d now sev dts)) = detectionHistory d"
  by (simp add: triggerAccidentAlert_def Let_def)

lemma first_match_None:
  "\<forall>e \<in> set es. ev_type e = Impact \<longrightarrow> ev_timestamp e < now - w \<Longrightarrow> first_match now w es = None"
  by (induction es) auto

lemma first_match_Some:
  "first_match now w es = Some e \<Longrightarrow> e \<in> set es \<and> ev_type e = Impact \<and> now - ev_timestamp e \<le> w"
  by (induction es) (auto split: if_splits)

text \<open>
  Claim C5. With the default thresholds \<^verbatim>\<open>calculateSeverity\<close> is the first-match-wins
  classification of the specification: Critical from 8.0 g, or from 6.0 g once the force
  has lasted 200 ms; else High from 6.0 g; else Medium from 4.0 g; else Low from 2.5 g; else
  None. The impact path logs an Impact event with exactly this severity, the duration being
  counted from the start of the sustained force. A force in [6.0, 8.0) gives High below
  200 ms and Critical from 200 ms on.
\<close>

theorem severity_precedence:
  "calculateSeverity default_thresholds g dur = classify_spec g dur \<and>
   (isActive d \<and> detectionThresholds d = default_thresholds \<and> 2.5 \<le> g \<longrightarrow>
      last (detectionHistory (fst (impact_path d now g))) =
        impact_event
          (classify_spec g (now - (if sustainedHighForce d then highForceStartTime d else now)))
          g (now - (if sustainedHighForce d then highForceStartTime d else now)) now) \<and>
   (6.0 \<le> g \<and> g < 8.0 \<and> dur < 200 \<longrightarrow> calculateSeverity default_thresholds g dur = High) \<and>
   (6.0 \<le> g \<and> g < 8.0 \<and> 200 \<le> dur \<longrightarrow> calculateSeverity default_thresholds g dur = Critical)"
proof -
  have refine: "calculateSeverity default_thresholds g' dur' = classify_spec g' dur'" for g' dur'
    by (simp add: calculateSeverity_def classify_spec_def default_thresholds_def)
  have logged: "last (detectionHistory (fst (impact_path d now g))) =
        impact_event
          (classify_spec g (now - (if sustainedHighForce d then highForceStartTime d else now)))
          g (now - (if sustainedHighForce d then highForceStartTime d else now)) now"
    if "detectionThresholds d = default_thresholds" "2.5 \<le> g"
  proof -
    have low: "lowImpact default_thresholds \<le> g"
      using that by (simp add: default_thresholds_def)
    show ?thesis
      using that low
      by (simp add: impact_path_def Let_def refine last_addDetectionEvent)
  qed
  have high: "classify_spec g dur = High" if "6.0 \<le> g" "g < 8.0" "dur < 200"
    using that by (simp add: classify_spec_def)
  have crit: "classify_spec g dur = Critical" if "6.0 \<le> g" "200 \<le> dur"
    using that by (simp add: classify_spec_def)
  show ?thesis
    using logged high crit by (simp add: refine)
qed

theorem severity_precedence_witness:
  "(6::real) \<le> 7 \<and> (7::real) < 8 \<and> calculateSeverity default_thresholds 7 150 = High \<and>
   calculateSeverity default_thresholds 7 200 = Critical \<and>
   isActive (start new_detector) \<and>
   last (detectionHistory (fst (impact_path (start new_detector) 100000 5.2))) =
     impact_event Medium 5.2 0 100000"
  using severity_precedence [of 7 150 "start new_detector" 100000]
    severity_precedence [of 7 200 "start new_detector" 100000]
    severity_precedence [of "5.2" 0 "start new_detector" 100000]
  by (simp add: start_def new_detector_def classify_spec_def)




text \<open>
  Claim C9. With the default thresholds, neither modality alone requests an alert. A sample
  of at least 100 dB, when every Impact event of the history is older than 2000 ms, leaves
  the engine as it is and requests nothing. A sample without impact (below 2.5 g) whose
  beta or gamma differs from the previous rotation by more than 45 degrees, as the double
  subtraction computes the difference, appends exactly one entry of kind Rotation and
  severity High with the two differences and the current time (the oldest entry goes when
  the history is full), shows that severity, and does nothing else: no alert request, no
  change of \<open>lastImpactTime\<close>. With both differences at most 45 nothing is logged. The
  witness has a 60 degree tilt, and the doubles 0.1 and 45.1, whose difference rounds to 45.
\<close>

theorem no_alert_from_one_modality:
  "(isActive d \<and> detectionThresholds d = default_thresholds \<and> 100 \<le> level a \<and>
    (\<forall>e \<in> set (detectionHistory d). ev_type e = Impact \<longrightarrow> ev_timestamp e < now - 2000) \<longrightarrow>
      analyzeAudioData d now a = (d, [])) \<and>
   (isActive d \<and> detectionThresholds d = default_thresholds \<and> impactForce sd < 2.5 \<and>
    previousRotation d = Some p \<and>
    (\<bar>double_sub (beta (rotation sd)) (beta p)\<bar> > 45 \<or>
     \<bar>double_sub (gamma (rotation sd)) (gamma p)\<bar> > 45) \<longrightarrow>
      filter is_ShowAlert (snd (analyzeSensorData d now sd)) = [] \<and>
      analyzeSensorData d now sd =
        (d\<lparr>sustainedHighForce := False,
           detectionHistory :=
             (if 50 \<le> length (detectionHistory d) then tl (detectionHistory d)
              else detectionHistory d)
             @ [\<lparr>ev_type = Rotation, ev_severity = High, ev_force = None, ev_duration = None,
                 ev_soundLevel = None,
                 ev_deltaBeta = Some \<bar>double_sub (beta (rotation sd)) (beta p)\<bar>,
                 ev_deltaGamma = Some \<bar>double_sub (gamma (rotation sd)) (gamma p)\<bar>,
                 ev_timestamp = now\<rparr>],
           previousRotation := Some (rotation sd)\<rparr>,
         [SeverityDisplay High])) \<and>
   (isActive d \<and> detectionThresholds d = default_thresholds \<and> impactForce sd < 2.5 \<and>
    previousRotation d = Some p \<and>
    \<bar>double_sub (beta (rotation sd)) (beta p)\<bar> \<le> 45 \<and>
    \<bar>double_sub (gamma (rotation sd)) (gamma p)\<bar> \<le> 45 \<longrightarrow>
      analyzeSensorData d now sd =
        (d\<lparr>sustainedHighForce := False, previousRotation := Some (rotation sd)\<rparr>, []))"
proof -
  have audio: "analyzeAudioData d now a = (d, [])"
    if "\<forall>e \<in> set (detectionHistory d). ev_type e = Impact \<longrightarrow> ev_timestamp e < now - 2000"
  proof -
    have "\<forall>e \<in> set (rev (detectionHistory d)). ev_type e = Impact \<longrightarrow> ev_timestamp e < now - 2000"
      using that by simp
    then have "hasRecentImpact d now 2000 = None"
      unfolding hasRecentImpact_def by (rule first_match_None)
    then show ?thesis by (simp add: analyzeAudioData_def)
  qed
  have calm: "impact_path d now (impactForce sd) = (d\<lparr>sustainedHighForce := False\<rparr>, [])"
    if "detectionThresholds d = default_thresholds" "impactForce sd < 2.5"
    using that by (simp add: impact_path_def default_thresholds_def)
  have rot: "analyzeSensorData d now sd =
        (d\<lparr>sustainedHighForce := False,
           detectionHistory :=
             (if 50 \<le> length (detectionHistory d) then tl (detectionHistory d)
              else detectionHistory d)
             @ [\<lparr>ev_type = Rotation, ev_severity = High, ev_force = None, ev_duration = None,
                 ev_soundLevel = None,
                 ev_deltaBeta = Some \<bar>double_sub (beta (rotation sd)) (beta p)\<bar>,
                 ev_deltaGamma = Some \<bar>double_sub (gamma (rotation sd)) (gamma p)\<bar>,
                 ev_timestamp = now\<rparr>],
           previousRotation := Some (rotation sd)\<rparr>,
         [SeverityDisplay High])"
    if "isActive d" "detectionThresholds d = default_thresholds" "impactForce sd < 2.5"
      "previousRotation d = Some p"
      "\<bar>double_sub (beta (rotation sd)) (beta p)\<bar> > 45 \<or>
       \<bar>double_sub (gamma (rotation sd)) (gamma p)\<bar> > 45"
  proof -
    have big: "\<bar>double_sub (beta (rotation sd)) (beta p)\<bar> > suddenRotation default_thresholds \<or>
               \<bar>double_sub (gamma (rotation sd)) (gamma p)\<bar> > suddenRotation default_thresholds"
      using that by (simp add: default_thresholds_def)
    have full: "tl (detectionHistory d @ [e]) = tl (detectionHistory d) @ [e]"
      if "50 \<le> length (detectionHistory d)" for e
      using that by (cases "detectionHistory d") simp_all
    show ?thesis
      using that(1,2,4) big
      by (simp add: analyzeSensorData_def calm [OF that(2,3)] checkRotationAnomaly_def Let_def
          addDetectionEvent_def rotation_event_def full)
  qed
  have still: "analyzeSensorData d now sd =
        (d\<lparr>sustainedHighForce := False, previousRotation := Some (rotation sd)\<rparr>, [])"
    if "isActive d" "detectionThresholds d = default_thresholds" "impactForce sd < 2.5"
      "previousRotation d = Some p"
      "\<bar>double_sub (beta (rotation sd)) (beta p)\<bar> \<le> 45"
      "\<bar>double_sub (gamma (rotation sd)) (gamma p)\<bar> \<le> 45"
  proof -
    have small: "\<not> \<bar>double_sub (beta (rotation sd)) (beta p)\<bar> > suddenRotation default_thresholds"
        "\<not> \<bar>double_sub (gamma (rotation sd)) (gamma p)\<bar> > suddenRotation default_thresholds"
      using that by (simp_all add: default_thresholds_def)
    show ?thesis
      using that(1,2,4) small
      by (simp add: analyzeSensorData_def calm [OF that(2,3)] checkRotationAnomaly_def Let_def)
  qed
  have none: "filter is_ShowAlert (snd (analyzeSensorData d now sd)) = []"
    if "isActive d" "detectionThresholds d = default_thresholds" "impactForce sd < 2.5"
      "previousRotation d = Some p"
      "\<bar>double_sub (beta (rotation sd)) (beta p)\<bar> > 45 \<or>
       \<bar>double_sub (gamma (rotation sd)) (gamma p)\<bar> > 45"
    by (simp add: rot [OF that])
  show ?thesis using audio rot still none by blast
qed

theorem no_alert_from_one_modality_witness:
  "analyzeAudioData (start new_detector) 100000 loud_sample = (start new_detector, []) \<and>
   analyzeSensorData ((start new_detector)\<lparr>previousRotation := Some level_rotation\<rparr>)
       100000 tilted_sample =
     ((start new_detector)
        \<lparr>detectionHistory :=
           [\<lparr>ev_type = Rotation, ev_severity = High, ev_force = None, ev_duration = None,
             ev_soundLevel = None, ev_deltaBeta = Some 60, ev_deltaGamma = Some 0,
             ev_timestamp = 100000\<rparr>],
         previousRotation := Some (rotation tilted_sample)\<rparr>,
      [SeverityDisplay High]) \<and>
   analyzeSensorData ((start new_detector)\<lparr>previousRotation := Some tenth_rotation\<rparr>)
       100000 threshold_sample =
     ((start new_detector)\<lparr>previousRotation := Some (rotation threshold_sample)\<rparr>, [])"
proof -
  have b60: "double_sub (beta (rotation tilted_sample)) (beta level_rotation) = 60"
    by (simp add: tilted_sample_def level_rotation_def double_sub_def to_double_60)
  have g0: "double_sub (gamma (rotation tilted_sample)) (gamma level_rotation) = 0"
    by (simp add: tilted_sample_def level_rotation_def)
  have b45: "double_sub (beta (rotation threshold_sample)) (beta tenth_rotation) = 45"
    by (simp add: threshold_sample_def tenth_rotation_def to_double_threshold)
  have g45: "double_sub (gamma (rotation threshold_sample)) (gamma tenth_rotation) = 0"
    by (simp add: threshold_sample_def tenth_rotation_def)
  show ?thesis
    using no_alert_from_one_modality
        [of "start new_detector" loud_sample 100000 tilted_sample level_rotation]
      no_alert_from_one_modality
        [of "(start new_detector)\<lparr>previousRotation := Some level_rotation\<rparr>"
          loud_sample 100000 tilted_sample level_rotation]
      no_alert_from_one_modality
        [of "(start new_detector)\<lparr>previousRotation := Some tenth_rotation\<rparr>"
          loud_sample 100000 threshold_sample tenth_rotation]
    by (simp add: b60 g0 b45 g45 start_def new_detector_def loud_sample_def)
       (simp add: tilted_sample_def threshold_sample_def)
qed

text \<open>
  Claim C10. While the detector is not active, a motion sample and an audio sample return at
  once: the detector is unchanged (history, \<open>lastImpactTime\<close>, the sustained-force tracker,
  the previous rotation) and nothing is emitted; the whole page state stays as it is.
\<close>

theorem inactive_detector_ignores_samples:
  "(\<not> isActive d \<longrightarrow>
      analyzeSensorData d now sd = (d, []) \<and> analyzeAudioData d now a = (d, [])) \<and>
   (\<not> isActive (accidentDetector s) \<longrightarrow>
      step b now (Motion sd) s = (s, []) \<and> step b now (Audio a) s = (s, []))"
  by (simp add: analyzeSensorData_def analyzeAudioData_def engine_call_def)

theorem inactive_detector_ignores_samples_witness:
  "\<not> isActive new_detector \<and>
   analyzeSensorData new_detector 100000 \<lparr>impactForce = 9, rotation = level_rotation\<rparr>
     = (new_detector, []) \<and>
   analyzeAudioData (stop (start new_detector)) 100000 loud_sample = (stop (start new_detector), [])"
  using inactive_detector_ignores_samples
      [of new_detector 100000 "\<lparr>impactForce = 9, rotation = level_rotation\<rparr>" loud_sample
        new_system full_browser]
    inactive_detector_ignores_samples
      [of "stop (start new_detector)" 100000 "\<lparr>impactForce = 9, rotation = level_rotation\<rparr>"
        loud_sample new_system full_browser]
  by (simp add: new_detector_def start_def stop_def)

text \<open>
  Claim C1, as amended. \<^verbatim>\<open>triggerAccidentAlert\<close> sets \<open>lastImpactTime\<close> to the current time
  on exactly the requests that pass the 10000 ms cooldown gate, before it looks at the
  severity; the request reaches \<^verbatim>\<open>showAlert\<close> when it passes the cooldown gate and its
  severity is Medium, High or Critical. So a Low impact that passes the cooldown gate is
  dropped and still stamps \<open>lastImpactTime\<close>.
\<close>

theorem lastImpactTime_stamped_behind_cooldown_gate:
  "lastImpactTime (fst (triggerAccidentAlert d now sev dts)) =
     (if now - lastImpactTime d < 10000 then lastImpactTime d else now) \<and>
   snd (triggerAccidentAlert d now sev dts) =
     (if now - lastImpactTime d < 10000 \<or> sev = Low \<or> sev = SevNone then []
      else [ShowAlert sev dts]) \<and>
   (isActive d \<and> detectionThresholds d = default_thresholds \<and>
    2.5 \<le> impactForce sd \<and> impactForce sd < 4 \<and> lastImpactTime d + 10000 \<le> now \<longrightarrow>
      lastImpactTime (fst (analyzeSensorData d now sd)) = now \<and>
      filter is_ShowAlert (snd (analyzeSensorData d now sd)) = [])"
proof -
  have low: "lastImpactTime (fst (analyzeSensorData d now sd)) = now \<and>
      filter is_ShowAlert (snd (analyzeSensorData d now sd)) = []"
    if "isActive d" "detectionThresholds d = default_thresholds"
      "2.5 \<le> impactForce sd" "impactForce sd < 4" "lastImpactTime d + 10000 \<le> now"
  proof -
    have sev: "calculateSeverity default_thresholds (impactForce sd) dur = Low" for dur
      using that by (simp add: calculateSeverity_def default_thresholds_def)
    have "lowImpact default_thresholds \<le> impactForce sd"
      using that by (simp add: default_thresholds_def)
    then show ?thesis
      using that
      by (simp add: analyzeSensorData_def impact_path_def Let_def sev triggerAccidentAlert_def)
  qed
  show ?thesis
    using low by (simp add: triggerAccidentAlert_def Let_def)
qed

theorem lastImpactTime_stamped_behind_cooldown_gate_witness:
  "lastImpactTime (start new_detector) + 10000 \<le> 100000 \<and>
   lastImpactTime (fst (analyzeSensorData (start new_detector) 100000
      \<lparr>impactForce = 3, rotation = level_rotation\<rparr>)) = 100000 \<and>
   filter is_ShowAlert (snd (analyzeSensorData (start new_detector) 100000
      \<lparr>impactForce = 3, rotation = level_rotation\<rparr>)) = []"
  using lastImpactTime_stamped_behind_cooldown_gate
    [of "start new_detector" 100000 Low no_details "\<lparr>impactForce = 3, rotation = level_rotation\<rparr>"]
  by (simp add: start_def new_detector_def)

text \<open>
  Claim C1 as stated fails: a Low request 100000 ms after the last stamp passes the cooldown
  gate, is dropped by the severity gate, and \<open>lastImpactTime\<close> has changed.
\<close>

theorem low_request_stamps_lastImpactTime_counterexample:
  "\<not> (100000 - lastImpactTime (start new_detector) < 10000) \<and>
   snd (triggerAccidentAlert (start new_detector) 100000 Low (impact_details 3 0)) = [] \<and>
   lastImpactTime (fst (triggerAccidentAlert (start new_detector) 100000 Low (impact_details 3 0)))
     \<noteq> lastImpactTime (start new_detector)"
  by (simp add: triggerAccidentAlert_def start_def new_detector_def Let_def)

section \<open>Claims about the cooldown\<close>

text \<open>
  Claim C2, as amended. In a run in which no scheduled cooldown reset fires, starting from
  any state, any two honoured alert requests are at least 10000 ms apart, whatever samples
  and cancellations arrive in between. (The start state is arbitrary, so this speaks of any
  stretch of an execution between two firings of a reset.)
\<close>

theorem honoured_requests_spaced_without_reset:
  assumes "\<forall>te \<in> set evs. snd te \<noteq> ResetFires"
  shows "sorted_wrt (\<lambda>t1 t2. t1 + 10000 \<le> t2) (honoured b s evs)"
  using honoured_spaced_aux [OF assms] by simp

theorem honoured_requests_spaced_without_reset_witness:
  "honoured full_browser new_system burst_run = [100000, 110000] \<and>
   sorted_wrt (\<lambda>t1 t2. t1 + 10000 \<le> t2) (honoured full_browser new_system burst_run)"
proof -
  have "\<forall>te \<in> set burst_run. snd te \<noteq> ResetFires"
    by (simp add: burst_run_def impact_sample_def)
  from honoured_requests_spaced_without_reset [OF this, of full_browser new_system]
  show ?thesis
    by (simp add: burst_run_def engine_defs handler_defs system_defs Let_def)
qed

text \<open>
  Claim C2 as stated fails: an alert honoured at 100000 is cancelled at 101000, the reset
  scheduled by the cancellation fires at 106000, and the request of 106001 is honoured,
  6001 ms after the first.
\<close>

theorem second_alert_after_reset_counterexample:
  "honoured full_browser new_system cancelled_run = [100000, 106001]"
  by (simp add: cancelled_run_def engine_defs handler_defs system_defs Let_def)

section \<open>Basic facts about the alert handler\<close>

lemma fold_book_handler [simp]: "alertHandler (fold (book now) effs s) = alertHandler s"
proof (induction effs arbitrary: s)
  case Nil
  show ?case by simp
next
  case (Cons e effs)
  have "alertHandler (book now e s) = alertHandler s" by (cases e) simp_all
  with Cons show ?case by simp
qed

lemma handler_call_handler [simp]: "alertHandler (fst (handler_call now r s)) = fst r"
  by (simp add: handler_call_def)

lemma quiet_showAlert: "quiet h \<Longrightarrow> quiet (fst (showAlert b h sev dts))"
  by (simp add: quiet_def showAlert_def Let_def startContinuousBeeping_def playBeep_def
      startShakeDetection_def startVoiceRecognition_def startCountdown_def)

lemma disarmed_disarm: "disarmed (disarm h) \<and> \<not> isAlertActive (disarm h)"
  by (simp add: disarmed_def disarm_def clearCountdown_def stopVoiceRecognition_def
      stopShakeDetection_def stopContinuousBeeping_def)

lemma quiet_cancelAlert: "quiet (fst (cancelAlert h))"
  by (simp add: quiet_def cancelAlert_def disarmed_disarm)

lemma quiet_sendEmergencyAlert: "quiet (fst (sendEmergencyAlert b h))"
  by (simp add: quiet_def sendEmergencyAlert_def Let_def disarmed_disarm)

lemma quiet_countdown_tick: "quiet h \<Longrightarrow> quiet (fst (countdown_tick b h))"
proof (cases "countdownTimer h")
  case None
  assume "quiet h"
  with None show ?thesis by (simp add: countdown_tick_def)
next
  case (Some m)
  assume "quiet h"
  with Some have act: "isAlertActive h" by (auto simp: quiet_def disarmed_def)
  show ?thesis
  proof (cases "m - 1 < 0")
    case True
    with Some show ?thesis
      by (simp add: countdown_tick_def Let_def quiet_sendEmergencyAlert)
  next
    case False
    with Some act show ?thesis
      by (simp add: countdown_tick_def Let_def quiet_def playUrgentBeep_def)
  qed
qed

lemma quiet_beep_tick: "quiet h \<Longrightarrow> quiet (fst (beep_tick b h))"
  by (auto simp: quiet_def disarmed_def beep_tick_def playBeep_def)

lemma quiet_updateLocation_resolved: "quiet h \<Longrightarrow> quiet (updateLocation_resolved h pos)"
  by (simp add: quiet_def disarmed_def updateLocation_resolved_def)

lemma quiet_deliver: "quiet (alertHandler s) \<Longrightarrow> quiet (alertHandler (fst (deliver b now e s)))"
  by (cases e) (simp_all add: Let_def quiet_showAlert)

lemma quiet_deliver_all:
  "quiet (alertHandler s) \<Longrightarrow> quiet (alertHandler (fst (deliver_all b now effs s)))"
  by (induction effs arbitrary: s) (simp_all add: Let_def quiet_deliver)

lemma quiet_step: "quiet (alertHandler s) \<Longrightarrow> quiet (alertHandler (fst (step b now e s)))"
  by (cases e)
    (simp_all add: engine_call_def quiet_deliver_all quiet_countdown_tick quiet_beep_tick
      quiet_cancelAlert quiet_sendEmergencyAlert quiet_updateLocation_resolved
      split: list.splits)

lemma quiet_run: "quiet (alertHandler s) \<Longrightarrow> quiet (alertHandler (run b s evs))"
  by (induction evs arbitrary: s) (simp_all add: quiet_step)

lemma idle_handler_is_disarmed:
  "\<not> isAlertActive (alertHandler (run b new_system evs)) \<Longrightarrow>
     disarmed (alertHandler (run b new_system evs))"
proof -
  have "quiet (alertHandler new_system)"
    by (simp add: quiet_def disarmed_def new_system_def new_handler_def)
  then have "quiet (alertHandler (run b new_system evs))" by (rule quiet_run)
  then show "\<not> isAlertActive (alertHandler (run b new_system evs)) \<Longrightarrow>
     disarmed (alertHandler (run b new_system evs))"
    by (simp add: quiet_def)
qed

lemma countdown_tick_running:
  assumes "countdownTimer h = Some m" "1 \<le> m"
  shows "countdownTimer (fst (countdown_tick b h)) = Some (m - 1)"
    "isAlertActive (fst (countdown_tick b h)) = isAlertActive h"
    "currentSeverity (fst (countdown_tick b h)) = currentSeverity h"
    "alertDetails (fst (countdown_tick b h)) = alertDetails h"
    "countdownSeconds (fst (countdown_tick b h)) = countdownSeconds h"
    "filter is_escalation (snd (countdown_tick b h)) = []"
  using assms
  by (simp_all add: countdown_tick_def Let_def playUrgentBeep_def vibrateDevice_def)

lemma countdown_tick_expiry:
  assumes "countdownTimer h = Some 0"
  shows "countdown_tick b h =
     (disarm h, CountdownDisplay 0 #
        (if emergencyHandlerDefined b
         then [Dispatch (currentSeverity h) (alertDetails h), SwitchScreen EmergencyScreen]
         else [ErrorDialog]))"
  using assms
  by (simp add: countdown_tick_def Let_def sendEmergencyAlert_def disarm_def clearCountdown_def
      stopVoiceRecognition_def stopShakeDetection_def stopContinuousBeeping_def)

lemma ticks_add:
  "ticks b (j + k) h =
     (fst (ticks b k (fst (ticks b j h))), snd (ticks b j h) @ snd (ticks b k (fst (ticks b j h))))"
  by (induction j arbitrary: h) (simp_all add: Let_def)

lemma ticks_Suc_right:
  "ticks b (Suc k) h =
     (fst (countdown_tick b (fst (ticks b k h))),
      snd (ticks b k h) @ snd (countdown_tick b (fst (ticks b k h))))"
  using ticks_add [of b k "Suc 0" h] by (simp add: Let_def)

lemma ticks_running:
  "countdownTimer h = Some m \<Longrightarrow> int k \<le> m \<Longrightarrow>
     countdownTimer (fst (ticks b k h)) = Some (m - int k) \<and>
     isAlertActive (fst (ticks b k h)) = isAlertActive h \<and>
     currentSeverity (fst (ticks b k h)) = currentSeverity h \<and>
     alertDetails (fst (ticks b k h)) = alertDetails h \<and>
     filter is_escalation (snd (ticks b k h)) = []"
proof (induction k arbitrary: h m)
  case 0
  then show ?case by simp
next
  case (Suc k)
  from Suc.prems have m: "1 \<le> m" and k: "int k \<le> m - 1" by simp_all
  note t = countdown_tick_running [OF Suc.prems(1) m, of b]
  from Suc.IH [OF t(1) k] t show ?case
    by (simp add: Let_def algebra_simps)
qed

lemma showAlert_accepted:
  assumes "\<not> isAlertActive h"
  shows "isAlertActive (fst (showAlert b h sev dts))"
    "countdownSeconds (fst (showAlert b h sev dts)) = getCountdownTime sev"
    "countdownTimer (fst (showAlert b h sev dts)) = Some (getCountdownTime sev)"
    "currentSeverity (fst (showAlert b h sev dts)) = sev"
    "alertDetails (fst (showAlert b h sev dts)) = dts"
  using assms
  by (simp_all add: showAlert_def Let_def startCountdown_def startVoiceRecognition_def
      startShakeDetection_def startContinuousBeeping_def playBeep_def)

lemma getCountdownTime_nonneg: "0 \<le> getCountdownTime sev"
  by (cases sev) simp_all

section \<open>Claims about the alert lifecycle\<close>

text \<open>
  Claim C7. There is one handler, and \<^verbatim>\<open>showAlert\<close> on an active session is dropped: the
  handler (severity, details, countdown, state) is unchanged and nothing is emitted,
  nothing is queued. The same holds when the request comes from the engine.
\<close>

theorem showAlert_while_active_is_dropped:
  "(isAlertActive h \<longrightarrow> showAlert b h sev dts = (h, [])) \<and>
   (isAlertActive (alertHandler s) \<longrightarrow>
      deliver b now (ShowAlert sev dts) s = (s, [ShowAlert sev dts]))"
  by (simp add: showAlert_def handler_call_def)

theorem showAlert_while_active_is_dropped_witness:
  "isAlertActive high_alert \<and> currentSeverity high_alert = High \<and>
   countdownTimer high_alert = Some 20 \<and>
   showAlert full_browser high_alert Critical no_details = (high_alert, [])"
  using showAlert_while_active_is_dropped [of high_alert full_browser Critical no_details new_system 0]
  by (simp add: high_alert_def full_browser_def new_handler_def showAlert_accepted)

text \<open>
  Claim C6. The countdown table is Low 60, Medium 30, High 20, Critical 15. A trigger
  accepted with severity \<open>sev\<close> starts the counter at the table's value \<open>n\<close> and arms the
  interval with a period of 1000 ms; each run of its callback is one tick. After \<open>k \<le> n\<close>
  ticks the counter is \<open>n - k\<close>, the session is still active and nothing has been
  escalated; tick \<open>n + 1\<close>, which takes the counter below 0, ends the session and calls
  the dispatcher with the severity and details of the trigger (an error dialog when
  \<^verbatim>\<open>emergencyHandler\<close> is not defined). For Critical the counter is 0 after 15 ticks and
  the 16th tick escalates.
\<close>

theorem countdown_length_and_expiry:
  "getCountdownTime Low = 60 \<and> getCountdownTime Medium = 30 \<and> getCountdownTime High = 20 \<and>
   getCountdownTime Critical = 15 \<and>
   (\<not> isAlertActive h \<longrightarrow>
      countdownSeconds (fst (showAlert b h sev dts)) = getCountdownTime sev \<and>
      countdownTimer (fst (showAlert b h sev dts)) = Some (getCountdownTime sev) \<and>
      filter is_CountdownInterval (snd (showAlert b h sev dts)) = [CountdownInterval 1000] \<and>
      (\<forall>k. int k \<le> getCountdownTime sev \<longrightarrow>
         countdownTimer (fst (ticks b k (fst (showAlert b h sev dts))))
           = Some (getCountdownTime sev - int k) \<and>
         isAlertActive (fst (ticks b k (fst (showAlert b h sev dts)))) \<and>
         filter is_escalation (snd (ticks b k (fst (showAlert b h sev dts)))) = []) \<and>
      \<not> isAlertActive (fst (ticks b (Suc (nat (getCountdownTime sev))) (fst (showAlert b h sev dts)))) \<and>
      filter is_escalation
          (snd (ticks b (Suc (nat (getCountdownTime sev))) (fst (showAlert b h sev dts))))
        = (if emergencyHandlerDefined b then [Dispatch sev dts] else [ErrorDialog])) \<and>
   (\<not> isAlertActive h \<longrightarrow>
      countdownTimer (fst (showAlert b h Critical dts)) = Some 15 \<and>
      countdownTimer (fst (ticks b 15 (fst (showAlert b h Critical dts)))) = Some 0 \<and>
      isAlertActive (fst (ticks b 15 (fst (showAlert b h Critical dts)))) \<and>
      filter is_escalation (snd (ticks b 15 (fst (showAlert b h Critical dts)))) = [] \<and>
      \<not> isAlertActive (fst (ticks b 16 (fst (showAlert b h Critical dts)))) \<and>
      filter is_escalation (snd (ticks b 16 (fst (showAlert b h Critical dts))))
        = (if emergencyHandlerDefined b then [Dispatch Critical dts] else [ErrorDialog]))"
proof -
  have general:
    "countdownSeconds (fst (showAlert b h s dts)) = getCountdownTime s \<and>
      countdownTimer (fst (showAlert b h s dts)) = Some (getCountdownTime s) \<and>
      filter is_CountdownInterval (snd (showAlert b h s dts)) = [CountdownInterval 1000] \<and>
      (\<forall>k. int k \<le> getCountdownTime s \<longrightarrow>
         countdownTimer (fst (ticks b k (fst (showAlert b h s dts))))
           = Some (getCountdownTime s - int k) \<and>
         isAlertActive (fst (ticks b k (fst (showAlert b h s dts)))) \<and>
         filter is_escalation (snd (ticks b k (fst (showAlert b h s dts)))) = []) \<and>
      \<not> isAlertActive (fst (ticks b (Suc (nat (getCountdownTime s))) (fst (showAlert b h s dts)))) \<and>
      filter is_escalation
          (snd (ticks b (Suc (nat (getCountdownTime s))) (fst (showAlert b h s dts))))
        = (if emergencyHandlerDefined b then [Dispatch s dts] else [ErrorDialog])"
    if idle: "\<not> isAlertActive h" for s
  proof -
    define h1 where "h1 = fst (showAlert b h s dts)"
    define n where "n = getCountdownTime s"
    note acc = showAlert_accepted [OF idle, of b s dts, folded h1_def n_def]
    have armed: "filter is_CountdownInterval (snd (showAlert b h s dts)) = [CountdownInterval 1000]"
      using idle
      by (simp add: showAlert_def Let_def startCountdown_def playAlertSound_def
          startContinuousBeeping_def playBeep_def vibrateDevice_def)
    have n0: "0 \<le> n" by (simp add: n_def getCountdownTime_nonneg)
    have run: "countdownTimer (fst (ticks b k h1)) = Some (n - int k) \<and>
         isAlertActive (fst (ticks b k h1)) \<and> filter is_escalation (snd (ticks b k h1)) = []"
      if "int k \<le> n" for k
      using ticks_running [OF acc(3) that, of b] acc(1) by simp
    have kept: "currentSeverity (fst (ticks b (nat n) h1)) = s"
        "alertDetails (fst (ticks b (nat n) h1)) = dts"
      using ticks_running [OF acc(3), of "nat n" b] n0 acc(4,5) by simp_all
    have at0: "countdownTimer (fst (ticks b (nat n) h1)) = Some 0"
      using run [of "nat n"] n0 by simp
    have quiet_before: "filter is_escalation (snd (ticks b (nat n) h1)) = []"
      using run [of "nat n"] n0 by simp
    have last: "ticks b (Suc (nat n)) h1 =
        (fst (countdown_tick b (fst (ticks b (nat n) h1))),
         snd (ticks b (nat n) h1) @ snd (countdown_tick b (fst (ticks b (nat n) h1))))"
      by (rule ticks_Suc_right)
    have exp: "\<not> isAlertActive (fst (ticks b (Suc (nat n)) h1)) \<and>
        filter is_escalation (snd (ticks b (Suc (nat n)) h1))
          = (if emergencyHandlerDefined b then [Dispatch s dts] else [ErrorDialog])"
      unfolding last countdown_tick_expiry [OF at0]
      by (simp add: disarm_def quiet_before kept)
    show ?thesis
      using acc(2,3) armed run exp unfolding h1_def n_def by blast
  qed
  have crit: "countdownTimer (fst (showAlert b h Critical dts)) = Some 15 \<and>
      countdownTimer (fst (ticks b 15 (fst (showAlert b h Critical dts)))) = Some 0 \<and>
      isAlertActive (fst (ticks b 15 (fst (showAlert b h Critical dts)))) \<and>
      filter is_escalation (snd (ticks b 15 (fst (showAlert b h Critical dts)))) = [] \<and>
      \<not> isAlertActive (fst (ticks b 16 (fst (showAlert b h Critical dts)))) \<and>
      filter is_escalation (snd (ticks b 16 (fst (showAlert b h Critical dts))))
        = (if emergencyHandlerDefined b then [Dispatch Critical dts] else [ErrorDialog])"
    if idle: "\<not> isAlertActive h"
  proof -
    have s16: "Suc (nat (getCountdownTime Critical)) = 16" by simp
    from general [OF idle, of Critical] have g:
      "countdownTimer (fst (showAlert b h Critical dts)) = Some 15"
      "\<And>k. int k \<le> 15 \<Longrightarrow>
         countdownTimer (fst (ticks b k (fst (showAlert b h Critical dts)))) = Some (15 - int k) \<and>
         isAlertActive (fst (ticks b k (fst (showAlert b h Critical dts)))) \<and>
         filter is_escalation (snd (ticks b k (fst (showAlert b h Critical dts)))) = []"
      "\<not> isAlertActive (fst (ticks b 16 (fst (showAlert b h Critical dts))))"
      "filter is_escalation (snd (ticks b 16 (fst (showAlert b h Critical dts))))
         = (if emergencyHandlerDefined b then [Dispatch Critical dts] else [ErrorDialog])"
      unfolding s16 by simp_all
    from g(2) [of 15] g(1,3,4) show ?thesis by simp
  qed
  show ?thesis using general [of sev] crit by simp
qed

theorem countdown_length_and_expiry_witness:
  "\<not> isAlertActive new_handler \<and>
   countdownTimer (fst (showAlert full_browser new_handler Critical no_details)) = Some 15 \<and>
   filter is_CountdownInterval (snd (showAlert full_browser new_handler Critical no_details))
     = [CountdownInterval 1000] \<and>
   isAlertActive (fst (ticks full_browser 15 (fst (showAlert full_browser new_handler Critical no_details)))) \<and>
   \<not> isAlertActive (fst (ticks full_browser 16 (fst (showAlert full_browser new_handler Critical no_details)))) \<and>
   filter is_escalation
       (snd (ticks full_browser 16 (fst (showAlert full_browser new_handler Critical no_details))))
     = [Dispatch Critical no_details]"
  using countdown_length_and_expiry [of new_handler full_browser Critical no_details]
  by (simp add: new_handler_def full_browser_def)

text \<open>
  Claim C4, as amended. A cancellation while the session is active returns it to idle with
  the countdown clock, both listeners and the cues off. A cancellation while the session
  is idle (and, as \<open>idle_handler_is_disarmed\<close> shows for every reachable state, switched
  off) leaves the handler's fields as they are. In both cases \<^verbatim>\<open>cancelAlert\<close> switches to
  the dashboard and schedules the reset of \<open>lastImpactTime\<close> 5000 ms later; the engine
  itself is not touched at that moment.
\<close>

theorem cancelAlert_when_active_and_when_idle:
  "(isAlertActive h \<longrightarrow> \<not> isAlertActive (fst (cancelAlert h)) \<and> disarmed (fst (cancelAlert h))) \<and>
   (\<not> isAlertActive h \<and> disarmed h \<longrightarrow> fst (cancelAlert h) = h) \<and>
   snd (cancelAlert h) = [SwitchScreen Dashboard, ResetTimeout 5000] \<and>
   resetTimers (fst (step b now CancelAlert s)) = resetTimers s @ [now + 5000] \<and>
   accidentDetector (fst (step b now CancelAlert s)) = accidentDetector s"
  by (simp add: cancelAlert_def disarm_def disarmed_def handler_call_def clearCountdown_def
      stopVoiceRecognition_def stopShakeDetection_def stopContinuousBeeping_def)

theorem cancelAlert_when_active_and_when_idle_witness:
  "isAlertActive high_alert \<and> \<not> isAlertActive (fst (cancelAlert high_alert)) \<and>
   disarmed (fst (cancelAlert high_alert)) \<and>
   \<not> isAlertActive new_handler \<and> disarmed new_handler \<and> fst (cancelAlert new_handler) = new_handler"
  using cancelAlert_when_active_and_when_idle [of high_alert full_browser 0 new_system]
    cancelAlert_when_active_and_when_idle [of new_handler full_browser 0 new_system]
  by (simp add: high_alert_def new_handler_def showAlert_accepted disarmed_def)

text \<open>
  Claim C4 as stated fails in its second half: after a minor bump the handler is idle; a
  cancellation then switches the screen and schedules a reset for 106000, and when that
  timer fires the engine's \<open>lastImpactTime\<close> goes from 100000 to 0.
\<close>

theorem cancel_while_idle_counterexample:
  "\<not> isAlertActive (alertHandler (run full_browser new_system low_impact_run)) \<and>
   snd (step full_browser 101000 CancelAlert (run full_browser new_system low_impact_run))
     = [SwitchScreen Dashboard, ResetTimeout 5000] \<and>
   resetTimers (fst (step full_browser 101000 CancelAlert
     (run full_browser new_system low_impact_run))) = [106000] \<and>
   lastImpactTime (accidentDetector (run full_browser new_system low_impact_run)) = 100000 \<and>
   lastImpactTime (accidentDetector (run full_browser new_system
     (low_impact_run @ [(101000, CancelAlert), (106000, ResetFires)]))) = 0"
  by (simp add: low_impact_run_def engine_defs handler_defs system_defs Let_def)

text \<open>
  Claim C3, as amended. The tick that takes the counter below 0 switches the countdown
  clock, the listeners and the cues off and sets the session back to idle, keeps severity
  and details, and calls the dispatcher with them when \<^verbatim>\<open>emergencyHandler\<close> is defined
  (an error dialog otherwise). The dispatch is then in flight while the session is already
  idle and accepts a new trigger; its completion does not touch the handler, and a
  cancellation does not abort it.
\<close>

theorem expiry_returns_to_idle_and_dispatches:
  "(countdownTimer h = Some 0 \<longrightarrow>
      \<not> isAlertActive (fst (countdown_tick b h)) \<and> disarmed (fst (countdown_tick b h)) \<and>
      currentSeverity (fst (countdown_tick b h)) = currentSeverity h \<and>
      alertDetails (fst (countdown_tick b h)) = alertDetails h \<and>
      snd (countdown_tick b h) =
        CountdownDisplay 0 #
          (if emergencyHandlerDefined b
           then [Dispatch (currentSeverity h) (alertDetails h), SwitchScreen EmergencyScreen]
           else [ErrorDialog])) \<and>
   (countdownTimer (alertHandler s) = Some 0 \<and> emergencyHandlerDefined b \<longrightarrow>
      \<not> isAlertActive (alertHandler (fst (step b now CountdownTick s))) \<and>
      dispatchesInFlight (fst (step b now CountdownTick s)) = Suc (dispatchesInFlight s)) \<and>
   (countdownTimer h = Some 0 \<longrightarrow>
      isAlertActive (fst (showAlert b (fst (countdown_tick b h)) sev dts))) \<and>
   alertHandler (fst (step b now DispatchCompletes s)) = alertHandler s \<and>
   dispatchesInFlight (fst (step b now CancelAlert s)) = dispatchesInFlight s"
proof -
  have tick: "\<not> isAlertActive (fst (countdown_tick b h')) \<and> disarmed (fst (countdown_tick b h')) \<and>
      currentSeverity (fst (countdown_tick b h')) = currentSeverity h' \<and>
      alertDetails (fst (countdown_tick b h')) = alertDetails h' \<and>
      snd (countdown_tick b h') =
        CountdownDisplay 0 #
          (if emergencyHandlerDefined b
           then [Dispatch (currentSeverity h') (alertDetails h'), SwitchScreen EmergencyScreen]
           else [ErrorDialog])"
    if "countdownTimer h' = Some 0" for h'
    unfolding countdown_tick_expiry [OF that]
    by (simp add: disarmed_disarm) (simp add: disarm_def clearCountdown_def stopVoiceRecognition_def
      stopShakeDetection_def stopContinuousBeeping_def)
  have sys: "\<not> isAlertActive (alertHandler (fst (step b now CountdownTick s))) \<and>
      dispatchesInFlight (fst (step b now CountdownTick s)) = Suc (dispatchesInFlight s)"
    if "countdownTimer (alertHandler s) = Some 0" "emergencyHandlerDefined b"
    using that tick [OF that(1)]
    by (simp add: handler_call_def)
  have cancel: "dispatchesInFlight (fst (step b now CancelAlert s)) = dispatchesInFlight s"
    by (simp add: handler_call_def cancelAlert_def)
  have again: "isAlertActive (fst (showAlert b (fst (countdown_tick b h)) sev dts))"
    if "countdownTimer h = Some 0"
    using tick [OF that] by (simp add: showAlert_accepted)
  show ?thesis using tick [of h] sys cancel again by simp
qed

theorem expiry_returns_to_idle_and_dispatches_witness:
  "countdownTimer (alertHandler (run full_browser new_system countdown_run)) = Some 0 \<and>
   isAlertActive (alertHandler (run full_browser new_system countdown_run)) \<and>
   \<not> isAlertActive (alertHandler (fst (step full_browser 116000 CountdownTick
        (run full_browser new_system countdown_run)))) \<and>
   snd (step full_browser 116000 CountdownTick (run full_browser new_system countdown_run)) =
     [CountdownDisplay 0, Dispatch Critical (impact_details 9 0), SwitchScreen EmergencyScreen]"
proof -
  have st: "countdownTimer (alertHandler (run full_browser new_system countdown_run)) = Some 0 \<and>
      isAlertActive (alertHandler (run full_browser new_system countdown_run)) \<and>
      currentSeverity (alertHandler (run full_browser new_system countdown_run)) = Critical \<and>
      alertDetails (alertHandler (run full_browser new_system countdown_run)) = impact_details 9 0"
    by (simp add: countdown_run_def engine_defs handler_defs system_defs Let_def)
  show ?thesis
    using st expiry_returns_to_idle_and_dispatches [of "alertHandler (run full_browser new_system countdown_run)" full_browser
        "run full_browser new_system countdown_run" 116000 High no_details]
    by (simp add: full_browser_def handler_call_def)
qed

text \<open>
  Claim C3 as stated fails: after the 16th tick of a Critical alert the session is idle
  while the dispatch is in flight, and the critical impact of 117000 starts a new session
  while that dispatch is still in flight.
\<close>

theorem idle_while_dispatch_in_flight_counterexample:
  "\<not> isAlertActive (alertHandler (run full_browser new_system
        (countdown_run @ [(116000, CountdownTick)]))) \<and>
   dispatchesInFlight (run full_browser new_system
        (countdown_run @ [(116000, CountdownTick)])) = 1 \<and>
   isAlertActive (alertHandler (run full_browser new_system
        (countdown_run @ [(116000, CountdownTick), (117000, impact_sample 9)]))) \<and>
   dispatchesInFlight (run full_browser new_system
        (countdown_run @ [(116000, CountdownTick), (117000, impact_sample 9)])) = 1"
  by (simp add: countdown_run_def engine_defs handler_defs system_defs Let_def)

end
